theory Spec2Isabelle
  imports Complex_Main "HOL-Library.Monad_Syntax"
begin

section \<open>Data model of \<open>App.jsx\<close>\<close>

text \<open>
  A landmark is an object with numeric fields \<open>x\<close> and \<open>y\<close> (normalised image
  coordinates). JavaScript numbers are modelled as \<^typ>\<open>real\<close>: the heuristics are
  read as exact arithmetic on finite coordinates, and rounding, infinities and NaN of
  IEEE doubles are outside the model. The fields are named \<open>lm_x\<close> and \<open>lm_y\<close>
  so that \<open>x\<close> and \<open>y\<close> stay usable as variables.
\<close>

record landmark =
  lm_x :: real
  lm_y :: real

text \<open>An entry \<open>{ t: now, v: mouthOpen }\<close> of the mouth-openness history.\<close>

record mouth_sample =
  ms_t :: nat
  ms_v :: real

text \<open>
  An entry of a hand field. The code reads a hand field as an array of hands, each hand
  an array of landmarks: \<open>rhand[0]\<close> is taken for the hand and
  \<open>rhand[0].length === 21\<close> for its size (lines 119 to 129). The face and pose fields
  of the same object are flat arrays of landmarks, and a hand field delivered in that
  shape has landmarks as its entries. An entry is therefore either one landmark, an
  object without a \<open>length\<close>, or an array of landmarks.
\<close>

datatype hand_item =
    Single landmark
  | Nested "landmark list"

text \<open>
  The fields of the \<open>results\<close> object that \<open>onResults\<close> reads for its signals.
  A field that is absent (\<open>undefined\<close> or \<open>null\<close>) is \<open>None\<close>.
\<close>

record results =
  faceLandmarks :: "landmark list option"
  leftHandLandmarks :: "hand_item list option"
  rightHandLandmarks :: "hand_item list option"
  poseLandmarks :: "landmark list option"

text \<open>
  The six \<open>useState\<close> values of the component (lines 24 to 29), and the state of
  the application: those values, written by the setters, together with the two refs
  \<open>mouthBufRef.current\<close> and \<open>lastNoseRef.current\<close>.
\<close>

record ui_state =
  theme :: string
  fingerCount :: nat
  leftEyeOpen :: bool
  rightEyeOpen :: bool
  speaking :: bool
  moving :: bool

record app_state = ui_state +
  mouthBuf :: "mouth_sample list"
  lastNose :: "landmark option"

definition initial_state :: app_state where
  "initial_state =
     \<lparr>theme = ''dark'', fingerCount = 0, leftEyeOpen = True, rightEyeOpen = True,
      speaking = False, moving = False, mouthBuf = [], lastNose = None\<rparr>"

section \<open>Constants\<close>

definition RIGHT_EYE :: "nat list" where
  "RIGHT_EYE = [33, 160, 158, 133, 153, 144]"

definition LEFT_EYE :: "nat list" where
  "LEFT_EYE = [362, 385, 387, 263, 373, 380]"

definition MOUTH_UP :: nat where "MOUTH_UP = 13"
definition MOUTH_DOWN :: nat where "MOUTH_DOWN = 14"
definition FACE_LEFT :: nat where "FACE_LEFT = 234"
definition FACE_RIGHT :: nat where "FACE_RIGHT = 454"

definition TIP :: "nat list" where
  "TIP = [4, 8, 12, 16, 20]"

definition PIP :: "nat list" where
  "PIP = [2, 6, 10, 14, 18]"

section \<open>Utilities\<close>

text \<open>
  Reading \<open>arr[i]\<close>: JavaScript yields \<open>undefined\<close> beyond the end of the array, and
  the later property access \<open>.x\<close> or \<open>.y\<close> on it throws a TypeError. \<open>None\<close>
  stands for \<open>undefined\<close>; the throw is the \<open>None\<close> of the option monad below.
\<close>

definition elem_at :: "'a list \<Rightarrow> nat \<Rightarrow> 'a option" where
  "elem_at arr i = (if i < length arr then Some (arr ! i) else None)"

definition distance :: "landmark \<Rightarrow> landmark \<Rightarrow> real" where
  "distance a b =
     (let dx = lm_x a - lm_x b;
          dy = lm_y a - lm_y b
      in sqrt (dx * dx + dy * dy))"

text \<open>\<open>face[indices[k]]\<close>, undefined when either index is out of range.\<close>

definition eye_point :: "landmark list \<Rightarrow> nat list \<Rightarrow> nat \<Rightarrow> landmark option" where
  "eye_point face indices k = elem_at indices k \<bind> elem_at face"

text \<open>The denominator of the eye aspect ratio, \<open>2.0 * Math.max(1e-6, C)\<close>.\<close>

definition ear_denominator :: "real \<Rightarrow> real" where
  "ear_denominator C = 2 * max (1 / 1000000) C"

text \<open>The body of the \<open>try\<close> block of \<open>computeEAR\<close>; \<open>None\<close> when it throws.\<close>

definition ear_try :: "landmark list \<Rightarrow> nat list \<Rightarrow> real option" where
  "ear_try face indices =
     do {
       p1 \<leftarrow> eye_point face indices 0;
       p2 \<leftarrow> eye_point face indices 1;
       p3 \<leftarrow> eye_point face indices 2;
       p4 \<leftarrow> eye_point face indices 3;
       p5 \<leftarrow> eye_point face indices 4;
       p6 \<leftarrow> eye_point face indices 5;
       let A = distance p2 p6;
       let B = distance p3 p5;
       let C = distance p1 p4;
       Some ((A + B) / ear_denominator C)
     }"

definition computeEAR :: "landmark list \<Rightarrow> nat list \<Rightarrow> real" where
  "computeEAR face indices =
     (case ear_try face indices of
        Some ear \<Rightarrow> ear
      | None \<Rightarrow> 3 / 10)"

text \<open>
  The loop \<open>for (let i = 1; i <= 4; i++)\<close> of \<open>countFingersFromHand\<close>, with the
  running \<open>count\<close>. \<open>TIP[i]\<close> and \<open>PIP[i]\<close> are in range for \<open>i \<le> 4\<close>.
\<close>

function count_loop :: "landmark list \<Rightarrow> nat \<Rightarrow> nat \<Rightarrow> nat option" where
  "count_loop landmarks i count =
     (if i \<le> 4 then
        do {
          tip \<leftarrow> elem_at landmarks (TIP ! i);
          pip \<leftarrow> elem_at landmarks (PIP ! i);
          count_loop landmarks (i + 1) (if lm_y tip < lm_y pip then count + 1 else count)
        }
      else Some count)"
  by pat_completeness auto
termination
  by (relation "measure (\<lambda>(landmarks, i, count). 5 - i)") auto

declare count_loop.simps [simp del]

text \<open>
  The body of the \<open>try\<close> block of \<open>countFingersFromHand\<close>. \<open>thumbIp.x\<close> is read
  only behind the margin test; there the tip is strictly to one side of the palm, so
  one of the two conjunctions reaches it.
\<close>

definition count_try :: "landmark list \<Rightarrow> nat option" where
  "count_try landmarks =
     do {
       count \<leftarrow> count_loop landmarks 1 0;
       thumbTip \<leftarrow> elem_at landmarks 4;
       palm \<leftarrow> elem_at landmarks 0;
       let palmX = lm_x palm;
       if \<bar>lm_x thumbTip - palmX\<bar> > 3 / 100 then
         do {
           thumbIp \<leftarrow> elem_at landmarks 3;
           Some (if (lm_x thumbTip < palmX \<and> lm_x thumbIp < palmX)
                    \<or> (lm_x thumbTip > palmX \<and> lm_x thumbIp > palmX)
                 then count + 1 else count)
         }
       else Some count
     }"

definition countFingersFromHand :: "landmark list \<Rightarrow> nat" where
  "countFingersFromHand landmarks =
     (case count_try landmarks of
        Some count \<Rightarrow> count
      | None \<Rightarrow> 0)"

section \<open>The per-frame handler \<open>onResults\<close>\<close>

text \<open>
  The handler is modelled in its three signal blocks, in source order. The calls of the
  setters are the updates of the \<^typ>\<open>ui_state\<close> fields, the writes to the refs the
  updates of \<open>mouthBuf\<close> and \<open>lastNose\<close>. The canvas drawing at the start and the
  end of the handler writes none of these; \<open>drawOverlay\<close> runs after the last setter,
  so an exception in it leaves the reported signals as they are. Of the drawing, the
  HUD is modelled, below.
\<close>

subsection \<open>Finger counting (lines 120 to 133)\<close>

text \<open>\<open>h && h.length\<close> followed by \<open>h[0]\<close>.\<close>

definition first_hand :: "hand_item list option \<Rightarrow> hand_item option" where
  "first_hand h =
     (case h of
        None \<Rightarrow> None
      | Some items \<Rightarrow> if length items \<noteq> 0 then Some (items ! 0) else None)"

text \<open>The variable \<open>handLandmarks\<close>: the right hand is preferred.\<close>

definition select_hand :: "results \<Rightarrow> hand_item option" where
  "select_hand res =
     (case first_hand (rightHandLandmarks res) of
        Some item \<Rightarrow> Some item
      | None \<Rightarrow> first_hand (leftHandLandmarks res))"

text \<open>
  Line 129, \<open>handLandmarks && handLandmarks.length === 21\<close>: a single landmark is a
  truthy object whose \<open>length\<close> is \<open>undefined\<close>, so the test fails on it.
\<close>

definition hand_step :: "results \<Rightarrow> app_state \<Rightarrow> app_state" where
  "hand_step res st =
     (case select_hand res of
        Some (Nested handLandmarks) \<Rightarrow>
          if length handLandmarks = 21
          then st\<lparr>fingerCount := countFingersFromHand handLandmarks\<rparr>
          else st\<lparr>fingerCount := 0\<rparr>
      | Some (Single landmark) \<Rightarrow> st\<lparr>fingerCount := 0\<rparr>
      | None \<Rightarrow> st\<lparr>fingerCount := 0\<rparr>)"

subsection \<open>Eyes and speaking (lines 136 to 160)\<close>

text \<open>The denominator of the normalised mouth openness (line 143).\<close>

definition mouth_denominator :: "landmark list \<Rightarrow> real" where
  "mouth_denominator face =
     max (1 / 1000000) (distance (face ! FACE_LEFT) (face ! FACE_RIGHT))"

definition mouth_openness :: "landmark list \<Rightarrow> real" where
  "mouth_openness face =
     distance (face ! MOUTH_UP) (face ! MOUTH_DOWN) / mouth_denominator face"

text \<open>Lines 147 and 148: \<open>if (mBuf.length > 30) mBuf.shift(); mBuf.push(...)\<close>.\<close>

definition push_mouth :: "mouth_sample list \<Rightarrow> nat \<Rightarrow> real \<Rightarrow> mouth_sample list" where
  "push_mouth mBuf now mouthOpen =
     (if length mBuf > 30 then tl mBuf else mBuf) @ [\<lparr>ms_t = now, ms_v = mouthOpen\<rparr>]"

text \<open>Line 152: \<open>mBuf.reduce((s, x) => s + x.v, 0) / mBuf.length\<close>.\<close>

definition buf_avg :: "mouth_sample list \<Rightarrow> real" where
  "buf_avg mBuf = foldl (\<lambda>s x. s + ms_v x) 0 mBuf / real (length mBuf)"

text \<open>Line 153: \<open>mBuf.slice(1).map((x, i) => Math.abs(x.v - mBuf[i].v))\<close>.\<close>

definition buf_diffs :: "mouth_sample list \<Rightarrow> real list" where
  "buf_diffs mBuf =
     map (\<lambda>(i, x). \<bar>ms_v x - ms_v (mBuf ! i)\<bar>) (enumerate 0 (drop 1 mBuf))"

text \<open>Line 154: \<open>diffs.length ? diffs.reduce((s, d) => s + d, 0) / diffs.length : 0\<close>.\<close>

definition buf_meanDiff :: "mouth_sample list \<Rightarrow> real" where
  "buf_meanDiff mBuf =
     (let diffs = buf_diffs mBuf
      in if length diffs \<noteq> 0
         then foldl (\<lambda>s d. s + d) 0 diffs / real (length diffs)
         else 0)"

definition with_face :: "landmark list \<Rightarrow> nat \<Rightarrow> app_state \<Rightarrow> app_state" where
  "with_face face now st =
     (let rightEAR = computeEAR face RIGHT_EYE;
          leftEAR = computeEAR face LEFT_EYE;
          mouthOpen = mouth_openness face;
          mBuf = push_mouth (mouthBuf st) now mouthOpen;
          avg = buf_avg mBuf;
          meanDiff = buf_meanDiff mBuf
      in st\<lparr>rightEyeOpen := rightEAR > 20 / 100,
            leftEyeOpen := leftEAR > 20 / 100,
            mouthBuf := mBuf,
            speaking := (avg > 3 / 100 \<and> meanDiff > 8 / 1000)\<rparr>)"

definition no_face :: "app_state \<Rightarrow> app_state" where
  "no_face st = st\<lparr>rightEyeOpen := True, leftEyeOpen := True, speaking := False\<rparr>"

definition face_step :: "results \<Rightarrow> nat \<Rightarrow> app_state \<Rightarrow> app_state" where
  "face_step res now st =
     (case faceLandmarks res of
        None \<Rightarrow> no_face st
      | Some face \<Rightarrow> if length face \<ge> 468 then with_face face now st else no_face st)"

subsection \<open>Movement (lines 162 to 182)\<close>

definition face_nose :: "results \<Rightarrow> landmark option" where
  "face_nose res =
     (case faceLandmarks res of
        None \<Rightarrow> None
      | Some face \<Rightarrow> if length face > 1 then Some (face ! 1) else None)"

definition select_nose :: "results \<Rightarrow> landmark option" where
  "select_nose res =
     (case poseLandmarks res of
        None \<Rightarrow> face_nose res
      | Some pose \<Rightarrow> if length pose > 0 then Some (pose ! 0) else face_nose res)"

definition nose_speed :: "landmark \<Rightarrow> landmark \<Rightarrow> real" where
  "nose_speed nose prev =
     (let dx = \<bar>lm_x nose - lm_x prev\<bar>;
          dy = \<bar>lm_y nose - lm_y prev\<bar>
      in sqrt (dx * dx + dy * dy))"

definition nose_step :: "results \<Rightarrow> app_state \<Rightarrow> app_state" where
  "nose_step res st =
     (case select_nose res of
        Some nose \<Rightarrow>
          (case lastNose st of
             Some prev \<Rightarrow> st\<lparr>moving := nose_speed nose prev > 3 / 1000\<rparr>
           | None \<Rightarrow> st)
          \<lparr>lastNose := Some \<lparr>lm_x = lm_x nose, lm_y = lm_y nose\<rparr>\<rparr>
      | None \<Rightarrow> st\<lparr>moving := False\<rparr>)"

subsection \<open>The handler and runs of it\<close>

text \<open>\<open>now\<close> is the value of \<open>Date.now()\<close> read on line 146.\<close>

definition onResults :: "results \<Rightarrow> nat \<Rightarrow> app_state \<Rightarrow> app_state" where
  "onResults res now st = nose_step res (face_step res now (hand_step res st))"

fun run_frames :: "(results \<times> nat) list \<Rightarrow> app_state \<Rightarrow> app_state" where
  "run_frames [] st = st"
| "run_frames ((res, now) # frames) st = run_frames frames (onResults res now st)"

section \<open>The status HUD\<close>

text \<open>The calls on the 2D context that \<open>drawHUD\<close> and \<open>roundRect\<close> make, in order.\<close>

datatype canvas_op =
    Save
  | Restore
  | SetGlobalAlpha real
  | SetFillStyle string
  | SetFont string
  | FillText string real real
  | BeginPath
  | MoveTo real real
  | ArcTo real real real real real
  | ClosePath
  | Fill
  | Stroke

definition roundRect :: "real \<Rightarrow> real \<Rightarrow> real \<Rightarrow> real \<Rightarrow> real \<Rightarrow> bool \<Rightarrow> bool \<Rightarrow> canvas_op list" where
  "roundRect x y w h r fill stroke =
     [BeginPath,
      MoveTo (x + r) y,
      ArcTo (x + w) y (x + w) (y + h) r,
      ArcTo (x + w) (y + h) x (y + h) r,
      ArcTo x (y + h) x y r,
      ArcTo x y (x + w) y r,
      ClosePath]
     @ (if fill then [Fill] else [])
     @ (if stroke then [Stroke] else [])"

text \<open>The decimal digits of a count, as the template literal \<open>${fingerCount}\<close> prints it.\<close>

fun show_nat :: "nat \<Rightarrow> string" where
  "show_nat n =
     (if n < 10 then [''0123456789'' ! n]
      else show_nat (n div 10) @ [''0123456789'' ! (n mod 10)])"

declare show_nat.simps [simp del]

text \<open>
  \<open>drawHUD\<close> reads \<open>theme\<close> and the five signal values from the scope of the render
  that created it; \<open>scope\<close> is that scope, \<open>w\<close> is \<open>ctx.canvas.width\<close>.
\<close>

definition drawHUD :: "ui_state \<Rightarrow> real \<Rightarrow> canvas_op list" where
  "drawHUD scope w =
     (let pad = 12;
          width = 280;
          height = 110;
          x = w - width - pad;
          y = pad
      in [Save,
          SetGlobalAlpha (if theme scope = ''dark'' then 75 / 100 else 95 / 100),
          SetFillStyle (if theme scope = ''dark'' then ''#000000'' else ''#ffffff'')]
         @ roundRect x y width height 10 True False
         @ [SetGlobalAlpha 1,
            SetFillStyle (if theme scope = ''dark'' then ''#fff'' else ''#111''),
            SetFont ''14px Inter, Arial'',
            FillText (''Fingers: '' @ show_nat (fingerCount scope)) (x + 14) (y + 28),
            SetFillStyle (if leftEyeOpen scope then ''#0fbf5f'' else ''#ef5350''),
            FillText (''Left eye: '' @ (if leftEyeOpen scope then ''Open'' else ''Closed''))
              (x + 14) (y + 50),
            SetFillStyle (if rightEyeOpen scope then ''#0fbf5f'' else ''#ef5350''),
            FillText (''Right eye: '' @ (if rightEyeOpen scope then ''Open'' else ''Closed''))
              (x + 14) (y + 72),
            SetFillStyle (if speaking scope then ''#0fbf5f'' else ''#888''),
            FillText (''Speaking: '' @ (if speaking scope then ''Yes'' else ''No''))
              (x + 140) (y + 28),
            SetFillStyle (if moving scope then ''#0fbf5f'' else ''#888''),
            FillText (''Moving: '' @ (if moving scope then ''Yes'' else ''No''))
              (x + 140) (y + 50),
            Restore])"

text \<open>The strings passed to \<open>fillText\<close>, in order.\<close>

fun hud_texts :: "canvas_op list \<Rightarrow> string list" where
  "hud_texts [] = []"
| "hud_texts (FillText s x y # ops) = s # hud_texts ops"
| "hud_texts (_ # ops) = hud_texts ops"

text \<open>
  Which scope \<open>drawHUD\<close> reads. The effect of lines 37 to 84 has the empty dependency
  list \<open>[]\<close>, so it runs once, after the first render, and line 52 hands
  \<open>holistic.onResults\<close> the \<open>onResults\<close> of that render. This function, and the
  \<open>drawOverlay\<close> and \<open>drawHUD\<close> it calls, are closures over the \<open>const\<close>
  bindings of lines 24 to 29 of the first render, which hold the \<open>useState\<close> initial
  values; a setter schedules a new render with new bindings and new functions, which
  nothing registers with \<open>holistic\<close>. \<open>onResults\<close> sets \<open>canvas.width\<close> to 640
  before it draws.
\<close>

definition first_render :: ui_state where
  "first_render =
     \<lparr>theme = ''dark'', fingerCount = 0, leftEyeOpen = True, rightEyeOpen = True,
      speaking = False, moving = False\<rparr>"

text \<open>
  The HUD calls of a processed frame, made at the end of \<open>drawOverlay\<close> when it
  gets there.
\<close>

definition frame_hud :: "canvas_op list" where
  "frame_hud = drawHUD first_render 640"

section \<open>Notions used in the statements\<close>

text \<open>
  The finger count in words: the fingers among index, middle, ring and pinky whose tip
  lies above its PIP joint (smaller \<open>y\<close>), plus one when the thumb tip is more than
  0.03 away from the wrist in \<open>x\<close> and on the same side of the wrist as the IP joint.
\<close>

definition spec_finger_count :: "landmark list \<Rightarrow> nat" where
  "spec_finger_count hand =
     length (filter (\<lambda>(tip, pip). lm_y (hand ! tip) < lm_y (hand ! pip))
               [(8, 6), (12, 10), (16, 14), (20, 18)])
     + (if \<bar>lm_x (hand ! 4) - lm_x (hand ! 0)\<bar> > 3 / 100
           \<and> ((lm_x (hand ! 4) < lm_x (hand ! 0) \<and> lm_x (hand ! 3) < lm_x (hand ! 0))
              \<or> (lm_x (hand ! 4) > lm_x (hand ! 0) \<and> lm_x (hand ! 3) > lm_x (hand ! 0)))
        then 1 else 0)"





text \<open>
  Speaking in words, over the buffered openness values: their mean exceeds 0.03 and the
  mean absolute difference of successive values exceeds 0.008. A buffer of fewer than
  two values has no successive values, so no mean difference that could exceed anything.
\<close>

definition spec_mean :: "real list \<Rightarrow> real" where
  "spec_mean xs = sum_list xs / real (length xs)"

definition spec_successive_diffs :: "real list \<Rightarrow> real list" where
  "spec_successive_diffs xs = map2 (\<lambda>a b. \<bar>b - a\<bar>) xs (tl xs)"

definition spec_speaking :: "real list \<Rightarrow> bool" where
  "spec_speaking vs =
     (spec_mean vs > 3 / 100
      \<and> length vs \<ge> 2
      \<and> spec_mean (spec_successive_diffs vs) > 8 / 1000)"

section \<open>Example inputs\<close>

text \<open>
  A face of 468 landmarks: the right eye open (aspect ratio 0.4), the left eye shut
  (aspect ratio 0), the lips 0.05 apart on a face 0.5 wide, the nose at the centre.
\<close>

definition example_point :: "nat \<Rightarrow> landmark" where
  "example_point i =
     (if i = 33 then \<lparr>lm_x = 30 / 100, lm_y = 40 / 100\<rparr>
      else if i = 133 then \<lparr>lm_x = 40 / 100, lm_y = 40 / 100\<rparr>
      else if i = 160 then \<lparr>lm_x = 33 / 100, lm_y = 38 / 100\<rparr>
      else if i = 144 then \<lparr>lm_x = 33 / 100, lm_y = 42 / 100\<rparr>
      else if i = 158 then \<lparr>lm_x = 37 / 100, lm_y = 38 / 100\<rparr>
      else if i = 153 then \<lparr>lm_x = 37 / 100, lm_y = 42 / 100\<rparr>
      else if i = 362 then \<lparr>lm_x = 60 / 100, lm_y = 40 / 100\<rparr>
      else if i = 263 then \<lparr>lm_x = 70 / 100, lm_y = 40 / 100\<rparr>
      else if i = 385 then \<lparr>lm_x = 63 / 100, lm_y = 40 / 100\<rparr>
      else if i = 380 then \<lparr>lm_x = 63 / 100, lm_y = 40 / 100\<rparr>
      else if i = 387 then \<lparr>lm_x = 67 / 100, lm_y = 40 / 100\<rparr>
      else if i = 373 then \<lparr>lm_x = 67 / 100, lm_y = 40 / 100\<rparr>
      else if i = 13 then \<lparr>lm_x = 50 / 100, lm_y = 60 / 100\<rparr>
      else if i = 14 then \<lparr>lm_x = 50 / 100, lm_y = 65 / 100\<rparr>
      else if i = 234 then \<lparr>lm_x = 25 / 100, lm_y = 50 / 100\<rparr>
      else if i = 454 then \<lparr>lm_x = 75 / 100, lm_y = 50 / 100\<rparr>
      else \<lparr>lm_x = 50 / 100, lm_y = 50 / 100\<rparr>)"

definition example_face :: "landmark list" where
  "example_face = map example_point [0..<468]"

text \<open>A hand of 21 landmarks: thumb, index and middle finger out, ring and pinky folded.\<close>

definition example_hand_point :: "nat \<Rightarrow> landmark" where
  "example_hand_point i =
     (if i = 0 then \<lparr>lm_x = 50 / 100, lm_y = 90 / 100\<rparr>
      else if i = 3 then \<lparr>lm_x = 40 / 100, lm_y = 70 / 100\<rparr>
      else if i = 4 then \<lparr>lm_x = 35 / 100, lm_y = 65 / 100\<rparr>
      else if i = 6 then \<lparr>lm_x = 45 / 100, lm_y = 50 / 100\<rparr>
      else if i = 8 then \<lparr>lm_x = 45 / 100, lm_y = 30 / 100\<rparr>
      else if i = 10 then \<lparr>lm_x = 50 / 100, lm_y = 50 / 100\<rparr>
      else if i = 12 then \<lparr>lm_x = 50 / 100, lm_y = 25 / 100\<rparr>
      else if i = 14 then \<lparr>lm_x = 55 / 100, lm_y = 50 / 100\<rparr>
      else if i = 16 then \<lparr>lm_x = 55 / 100, lm_y = 60 / 100\<rparr>
      else if i = 18 then \<lparr>lm_x = 60 / 100, lm_y = 55 / 100\<rparr>
      else if i = 20 then \<lparr>lm_x = 60 / 100, lm_y = 65 / 100\<rparr>
      else \<lparr>lm_x = 50 / 100, lm_y = 70 / 100\<rparr>)"

definition example_hand :: "landmark list" where
  "example_hand = map example_hand_point [0..<21]"


definition example_frame :: results where
  "example_frame =
     \<lparr>faceLandmarks = Some example_face, leftHandLandmarks = None,
      rightHandLandmarks = Some [Nested example_hand], poseLandmarks = None\<rparr>"




text \<open>
  The example face and hand with the hand field in the shape of the face field: the 21
  landmarks are the entries.
\<close>

definition flat_frame :: results where
  "flat_frame =
     \<lparr>faceLandmarks = Some example_face, leftHandLandmarks = None,
      rightHandLandmarks = Some (map Single example_hand), poseLandmarks = None\<rparr>"

text \<open>
  A degenerate face: all landmarks at the centre but the lower lip, 0.05 below it. The
  eye corners and the cheeks coincide, so the horizontal eye distance and the face width
  are 0.
\<close>

definition narrow_face :: "landmark list" where
  "narrow_face =
     map (\<lambda>i. if i = 14 then \<lparr>lm_x = 50 / 100, lm_y = 55 / 100\<rparr>
              else \<lparr>lm_x = 50 / 100, lm_y = 50 / 100\<rparr>) [0..<468]"

definition narrow_frame :: results where
  "narrow_frame =
     \<lparr>faceLandmarks = Some narrow_face, leftHandLandmarks = None,
      rightHandLandmarks = None, poseLandmarks = None\<rparr>"

text \<open>The same frame with a pose whose nose is at (0.5, 0.45).\<close>

definition pose_frame :: results where
  "pose_frame = example_frame\<lparr>poseLandmarks := Some [\<lparr>lm_x = 50 / 100, lm_y = 45 / 100\<rparr>]\<rparr>"

text \<open>A frame in which nothing was detected, and one with a truncated face and hand.\<close>

definition empty_frame :: results where
  "empty_frame =
     \<lparr>faceLandmarks = None, leftHandLandmarks = None,
      rightHandLandmarks = None, poseLandmarks = None\<rparr>"

definition short_frame :: results where
  "short_frame =
     \<lparr>faceLandmarks = Some (take 100 example_face), leftHandLandmarks = None,
      rightHandLandmarks = Some [Nested (take 20 example_hand)], poseLandmarks = None\<rparr>"

text \<open>
  Two states that a shut mouth and a nose at (0.5, 0.45) leave behind; they differ in
  the time stamp of the buffered sample only.
\<close>

definition quiet_state :: app_state where
  "quiet_state =
     initial_state\<lparr>mouthBuf := [\<lparr>ms_t = 0, ms_v = 0\<rparr>],
                   lastNose := Some \<lparr>lm_x = 50 / 100, lm_y = 45 / 100\<rparr>\<rparr>"

definition later_state :: app_state where
  "later_state =
     initial_state\<lparr>mouthBuf := [\<lparr>ms_t = 7, ms_v = 0\<rparr>],
                   lastNose := Some \<lparr>lm_x = 50 / 100, lm_y = 45 / 100\<rparr>\<rparr>"

section \<open>Basic facts\<close>

lemma distance_nonneg: "0 \<le> distance a b"
  by (simp add: distance_def Let_def)

lemma ear_denominator_pos: "0 < ear_denominator C"
  by (simp add: ear_denominator_def max_def)

lemma mouth_denominator_pos: "0 < mouth_denominator face"
  by (simp add: mouth_denominator_def max_def)

lemma eye_point_Some:
  "k < length indices \<Longrightarrow> indices ! k < length face \<Longrightarrow>
   eye_point face indices k = Some (face ! (indices ! k))"
  by (simp add: eye_point_def elem_at_def)

lemma distance_vertical: "lm_x a = lm_x b \<Longrightarrow> distance a b = \<bar>lm_y a - lm_y b\<bar>"
  by (simp add: distance_def Let_def)

lemma distance_horizontal: "lm_y a = lm_y b \<Longrightarrow> distance a b = \<bar>lm_x a - lm_x b\<bar>"
  by (simp add: distance_def Let_def)

lemma nose_speed_vertical:
  "lm_x nose = lm_x prev \<Longrightarrow> nose_speed nose prev = \<bar>lm_y nose - lm_y prev\<bar>"
  by (simp add: nose_speed_def Let_def)

text \<open>Each block of the handler writes its own fields only.\<close>

lemma onResults_fingerCount:
  "fingerCount (onResults res now st) = fingerCount (hand_step res st)"
  by (simp_all add: onResults_def nose_step_def face_step_def no_face_def
        with_face_def Let_def split: option.splits)

lemma onResults_face_fields:
  "leftEyeOpen (onResults res now st) = leftEyeOpen (face_step res now st)"
  "rightEyeOpen (onResults res now st) = rightEyeOpen (face_step res now st)"
  "speaking (onResults res now st) = speaking (face_step res now st)"
  "mouthBuf (onResults res now st) = mouthBuf (face_step res now st)"
  by (simp_all add: onResults_def nose_step_def face_step_def hand_step_def no_face_def
        with_face_def Let_def split: option.splits hand_item.splits)

lemma onResults_nose_fields:
  "moving (onResults res now st) = moving (nose_step res (st\<lparr>moving := moving st\<rparr>))"
  "lastNose (onResults res now st) = lastNose (nose_step res st)"
  by (simp_all add: onResults_def nose_step_def face_step_def hand_step_def no_face_def
        with_face_def Let_def split: option.splits hand_item.splits)

text \<open>The example inputs, entry by entry.\<close>

lemma example_face_length: "length example_face = 468"
  by (simp add: example_face_def)

lemma example_face_nth: "i < 468 \<Longrightarrow> example_face ! i = example_point i"
  by (simp add: example_face_def)

lemma example_hand_length: "length example_hand = 21"
  by (simp add: example_hand_def)

lemma example_hand_nth: "i < 21 \<Longrightarrow> example_hand ! i = example_hand_point i"
  by (simp add: example_hand_def)

lemma select_hand_example: "select_hand example_frame = Some (Nested example_hand)"
  by (simp add: select_hand_def first_hand_def example_frame_def)

lemma select_nose_example:
  "select_nose example_frame = Some \<lparr>lm_x = 50 / 100, lm_y = 50 / 100\<rparr>"
  by (simp add: select_nose_def face_nose_def example_frame_def example_face_length
        example_face_nth example_point_def)

lemma ear_try_None:
  "k < 6 \<Longrightarrow> eye_point face indices k = None \<Longrightarrow> ear_try face indices = None"
proof -
  assume k: "k < 6" and n: "eye_point face indices k = None"
  from k have "k = 0 \<or> k = 1 \<or> k = 2 \<or> k = 3 \<or> k = 4 \<or> k = 5" by arith
  with n show ?thesis
    by (auto simp: ear_try_def split: Option.bind_splits)
qed

section \<open>The fallback of \<open>computeEAR\<close>\<close>

text \<open>
  C10. When one of the six eye landmarks \<open>face[indices[k]]\<close> is missing, the property
  access on it throws inside the \<open>try\<close> block, and \<open>computeEAR\<close> returns the default
  0.3, which is above the threshold 0.20 that classifies an eye as open.
\<close>

theorem computeEAR_missing_landmark:
  "k < 6 \<Longrightarrow> eye_point face indices k = None \<Longrightarrow>
   computeEAR face indices = 3 / 10 \<and> computeEAR face indices > 20 / 100"
  by (simp add: computeEAR_def ear_try_None)

text \<open>A face array of 300 landmarks has no landmark 362, the first of the left eye.\<close>

theorem computeEAR_missing_landmark_witness:
  "(0::nat) < 6
   \<and> eye_point (replicate 300 \<lparr>lm_x = 1 / 2, lm_y = 1 / 2\<rparr>) LEFT_EYE 0 = None
   \<and> computeEAR (replicate 300 \<lparr>lm_x = 1 / 2, lm_y = 1 / 2\<rparr>) LEFT_EYE = 3 / 10
   \<and> computeEAR (replicate 300 \<lparr>lm_x = 1 / 2, lm_y = 1 / 2\<rparr>) LEFT_EYE > 20 / 100"
  using computeEAR_missing_landmark
    [of 0 "replicate 300 \<lparr>lm_x = 1 / 2, lm_y = 1 / 2\<rparr>" LEFT_EYE]
  by (simp add: eye_point_def elem_at_def LEFT_EYE_def)

section \<open>Eyes\<close>

lemma computeEAR_full:
  assumes "length indices = 6" and "\<forall>k<6. indices ! k < length face"
  shows "computeEAR face indices =
           (distance (face ! (indices ! 1)) (face ! (indices ! 5))
              + distance (face ! (indices ! 2)) (face ! (indices ! 4)))
           / (2 * max (1 / 1000000) (distance (face ! (indices ! 0)) (face ! (indices ! 3))))"
  using assms
  by (simp add: computeEAR_def ear_try_def eye_point_Some ear_denominator_def Let_def)

lemma computeEAR_right:
  assumes "468 \<le> length face"
  shows "computeEAR face RIGHT_EYE =
           (distance (face ! 160) (face ! 144) + distance (face ! 158) (face ! 153))
             / (2 * max (1 / 1000000) (distance (face ! 33) (face ! 133)))"
proof -
  have "RIGHT_EYE ! k < length face" if "k < 6" for k
  proof -
    from that have "k = 0 \<or> k = 1 \<or> k = 2 \<or> k = 3 \<or> k = 4 \<or> k = 5" by arith
    with assms show ?thesis by (auto simp: RIGHT_EYE_def)
  qed
  then have "\<forall>k<6. RIGHT_EYE ! k < length face" by blast
  from computeEAR_full [OF _ this] show ?thesis by (simp add: RIGHT_EYE_def)
qed

lemma computeEAR_left:
  assumes "468 \<le> length face"
  shows "computeEAR face LEFT_EYE =
           (distance (face ! 385) (face ! 380) + distance (face ! 387) (face ! 373))
             / (2 * max (1 / 1000000) (distance (face ! 362) (face ! 263)))"
proof -
  have "LEFT_EYE ! k < length face" if "k < 6" for k
  proof -
    from that have "k = 0 \<or> k = 1 \<or> k = 2 \<or> k = 3 \<or> k = 4 \<or> k = 5" by arith
    with assms show ?thesis by (auto simp: LEFT_EYE_def)
  qed
  then have "\<forall>k<6. LEFT_EYE ! k < length face" by blast
  from computeEAR_full [OF _ this] show ?thesis by (simp add: LEFT_EYE_def)
qed

lemma with_face_eyes:
  "rightEyeOpen (with_face face now st) = (computeEAR face RIGHT_EYE > 20 / 100)"
  "leftEyeOpen (with_face face now st) = (computeEAR face LEFT_EYE > 20 / 100)"
  by (simp_all add: with_face_def Let_def)

lemma right_eye_example: "rightEyeOpen (onResults example_frame now st)"
  by (simp add: onResults_face_fields face_step_def with_face_eyes example_frame_def
        example_face_length computeEAR_right example_face_nth example_point_def
        distance_vertical distance_horizontal)

lemma left_eye_flat: "\<not> leftEyeOpen (onResults flat_frame now st)"
  by (simp add: onResults_face_fields face_step_def with_face_eyes flat_frame_def
        example_face_length computeEAR_left example_face_nth example_point_def
        distance_vertical distance_horizontal)

lemma left_eye_example: "\<not> leftEyeOpen (onResults example_frame now st)"
  by (simp add: onResults_face_fields face_step_def with_face_eyes example_frame_def
        example_face_length computeEAR_left example_face_nth example_point_def
        distance_vertical distance_horizontal)



section \<open>Frames without a usable face\<close>

text \<open>
  C9. On a frame whose face landmarks are absent or fewer than 468, both eyes are
  reported open, speaking is reported false, and the mouth-openness history is left as
  it was.
\<close>

theorem no_face_fallback:
  "faceLandmarks res = None \<or> (\<exists>face. faceLandmarks res = Some face \<and> length face < 468) \<Longrightarrow>
   leftEyeOpen (onResults res now st) \<and> rightEyeOpen (onResults res now st)
   \<and> \<not> speaking (onResults res now st)
   \<and> mouthBuf (onResults res now st) = mouthBuf st"
  by (auto simp: onResults_face_fields face_step_def no_face_def)

text \<open>A frame with no face, and one with a face of 100 landmarks.\<close>

theorem no_face_fallback_witness:
  "faceLandmarks empty_frame = None
   \<and> leftEyeOpen (onResults empty_frame 1 quiet_state)
   \<and> rightEyeOpen (onResults empty_frame 1 quiet_state)
   \<and> \<not> speaking (onResults empty_frame 1 quiet_state)
   \<and> mouthBuf (onResults empty_frame 1 quiet_state) = [\<lparr>ms_t = 0, ms_v = 0\<rparr>]
   \<and> faceLandmarks short_frame = Some (take 100 example_face)
   \<and> length (take 100 example_face) < 468
   \<and> leftEyeOpen (onResults short_frame 1 quiet_state)
   \<and> rightEyeOpen (onResults short_frame 1 quiet_state)
   \<and> \<not> speaking (onResults short_frame 1 quiet_state)
   \<and> mouthBuf (onResults short_frame 1 quiet_state) = [\<lparr>ms_t = 0, ms_v = 0\<rparr>]"
  using no_face_fallback [of empty_frame 1 quiet_state]
    no_face_fallback [of short_frame 1 quiet_state]
  by (simp add: empty_frame_def short_frame_def quiet_state_def initial_state_def)

section \<open>Head movement\<close>

text \<open>The movement block of the handler, case by case.\<close>

lemma onResults_lastNose_Some:
  "select_nose res = Some nose \<Longrightarrow> lastNose (onResults res now st) = Some nose"
  by (simp add: onResults_nose_fields nose_step_def split: option.splits)

lemma onResults_lastNose_None:
  "select_nose res = None \<Longrightarrow> lastNose (onResults res now st) = lastNose st"
  by (simp add: onResults_nose_fields nose_step_def)

lemma moving_after:
  "select_nose res = Some nose \<Longrightarrow> lastNose st = Some prev \<Longrightarrow>
   moving (onResults res now st) = (nose_speed nose prev > 3 / 1000)"
  by (simp add: onResults_nose_fields nose_step_def)

lemma moving_first:
  "select_nose res = Some nose \<Longrightarrow> lastNose st = None \<Longrightarrow>
   moving (onResults res now st) = moving st"
  by (simp add: onResults_nose_fields nose_step_def)

lemma moving_none: "select_nose res = None \<Longrightarrow> \<not> moving (onResults res now st)"
  by (simp add: onResults_nose_fields nose_step_def)

lemma nose_speed_eq:
  "nose_speed nose prev = sqrt ((lm_x nose - lm_x prev)\<^sup>2 + (lm_y nose - lm_y prev)\<^sup>2)"
  by (simp add: nose_speed_def Let_def power2_eq_square)

lemma select_nose_pose:
  "select_nose pose_frame = Some \<lparr>lm_x = 50 / 100, lm_y = 45 / 100\<rparr>"
  by (simp add: select_nose_def pose_frame_def)

lemma select_nose_empty: "select_nose empty_frame = None"
  by (simp add: select_nose_def face_nose_def empty_frame_def)

text \<open>
  C5. The nose of a frame is pose landmark 0 of a non-empty pose, otherwise face
  landmark 1 of a face with more than one landmark, and there is none otherwise. When
  a frame has a nose and a previous nose position is recorded, moving is reported true
  exactly when the Euclidean distance between the two positions exceeds 0.003; on a
  frame with no nose, moving is reported false. The recorded position is the nose of the
  last frame that had one: a frame with a nose records it, a frame without leaves the
  record as it is. So on a frame with a nose that follows a frame with a nose, moving
  is reported exactly when the nose is displaced by more than 0.003 between the two.
\<close>

theorem moving_iff_nose_displacement:
  "(\<forall>nose prev. select_nose res = Some nose \<and> lastNose st = Some prev \<longrightarrow>
      moving (onResults res now st)
        = (sqrt ((lm_x nose - lm_x prev)\<^sup>2 + (lm_y nose - lm_y prev)\<^sup>2) > 3 / 1000))
   \<and> (select_nose res = None \<longrightarrow> \<not> moving (onResults res now st))
   \<and> (\<forall>pose. poseLandmarks res = Some pose \<and> 0 < length pose \<longrightarrow>
         select_nose res = Some (pose ! 0))
   \<and> (\<forall>face. (poseLandmarks res = None \<or> poseLandmarks res = Some [])
         \<and> faceLandmarks res = Some face \<and> 1 < length face \<longrightarrow>
         select_nose res = Some (face ! 1))
   \<and> ((poseLandmarks res = None \<or> poseLandmarks res = Some [])
         \<and> (faceLandmarks res = None
            \<or> (\<exists>face. faceLandmarks res = Some face \<and> length face \<le> 1)) \<longrightarrow>
         select_nose res = None)
   \<and> (\<forall>nose. select_nose res = Some nose \<longrightarrow> lastNose (onResults res now st) = Some nose)
   \<and> (select_nose res = None \<longrightarrow> lastNose (onResults res now st) = lastNose st)
   \<and> (\<forall>nose prev. select_nose res = Some nose \<and> select_nose res0 = Some prev \<longrightarrow>
         moving (onResults res now (onResults res0 now0 st))
           = (sqrt ((lm_x nose - lm_x prev)\<^sup>2 + (lm_y nose - lm_y prev)\<^sup>2) > 3 / 1000))"
proof -
  have a: "moving (onResults res now st')
        = (sqrt ((lm_x nose - lm_x prev)\<^sup>2 + (lm_y nose - lm_y prev)\<^sup>2) > 3 / 1000)"
    if "select_nose res = Some nose" "lastNose st' = Some prev" for nose prev st'
    using moving_after [OF that] by (simp only: nose_speed_eq)
  have b: "moving (onResults res now (onResults res0 now0 st))
        = (sqrt ((lm_x nose - lm_x prev)\<^sup>2 + (lm_y nose - lm_y prev)\<^sup>2) > 3 / 1000)"
    if "select_nose res = Some nose" "select_nose res0 = Some prev" for nose prev
    using a [OF that(1) onResults_lastNose_Some [OF that(2)]] .
  have c: "select_nose res = Some (pose ! 0)"
    if "poseLandmarks res = Some pose" "0 < length pose" for pose
    using that by (simp add: select_nose_def)
  have d: "select_nose res = Some (face ! 1)"
    if "poseLandmarks res = None \<or> poseLandmarks res = Some []"
      "faceLandmarks res = Some face" "1 < length face" for face
    using that by (auto simp: select_nose_def face_nose_def)
  have e: "select_nose res = None"
    if "poseLandmarks res = None \<or> poseLandmarks res = Some []"
      "faceLandmarks res = None \<or> (\<exists>face. faceLandmarks res = Some face \<and> length face \<le> 1)"
    using that by (auto simp: select_nose_def face_nose_def)
  from a [of _ st] b c d e show ?thesis
    by (intro conjI allI impI)
      (auto simp: moving_none onResults_lastNose_Some onResults_lastNose_None)
qed

text \<open>
  From the initial state: a pose nose at (0.5, 0.45) followed by a face nose at
  (0.5, 0.5) is reported moving, the same face nose twice is not; a frame without any
  nose reports not moving and keeps the recorded position.
\<close>

theorem moving_iff_nose_displacement_witness:
  "poseLandmarks example_frame = None
   \<and> faceLandmarks example_frame = Some example_face
   \<and> 1 < length example_face
   \<and> select_nose example_frame = Some (example_face ! 1)
   \<and> example_face ! 1 = \<lparr>lm_x = 50 / 100, lm_y = 50 / 100\<rparr>
   \<and> lastNose quiet_state = Some \<lparr>lm_x = 50 / 100, lm_y = 45 / 100\<rparr>
   \<and> moving (onResults example_frame 1 quiet_state)
   \<and> poseLandmarks empty_frame = None
   \<and> faceLandmarks empty_frame = None
   \<and> select_nose empty_frame = None
   \<and> \<not> moving (onResults empty_frame 1 (quiet_state\<lparr>moving := True\<rparr>))
   \<and> lastNose (onResults empty_frame 1 quiet_state)
       = Some \<lparr>lm_x = 50 / 100, lm_y = 45 / 100\<rparr>
   \<and> poseLandmarks pose_frame = Some [\<lparr>lm_x = 50 / 100, lm_y = 45 / 100\<rparr>]
   \<and> select_nose pose_frame = Some \<lparr>lm_x = 50 / 100, lm_y = 45 / 100\<rparr>
   \<and> \<not> moving (onResults pose_frame 1 quiet_state)
   \<and> lastNose (run_frames [(pose_frame, 1)] initial_state)
       = Some \<lparr>lm_x = 50 / 100, lm_y = 45 / 100\<rparr>
   \<and> moving (run_frames [(pose_frame, 1), (example_frame, 2)] initial_state)
   \<and> \<not> moving (run_frames [(example_frame, 1), (example_frame, 2)] initial_state)"
proof -
  let ?n = "\<lparr>lm_x = 50 / 100, lm_y = 50 / 100\<rparr>"
  let ?p = "\<lparr>lm_x = 50 / 100, lm_y = 45 / 100\<rparr>"
  note main = moving_iff_nose_displacement
  have ln: "lastNose quiet_state = Some ?p"
    by (simp add: quiet_state_def)
  have pl: "poseLandmarks pose_frame = Some [?p]"
    by (simp add: pose_frame_def)
  have ee: "poseLandmarks empty_frame = None" "faceLandmarks empty_frame = None"
    by (simp_all add: empty_frame_def)
  have se: "select_nose empty_frame = None"
    using main [of empty_frame quiet_state 1] ee by blast
  have sp: "select_nose pose_frame = Some ([?p] ! 0)"
    using main [of pose_frame quiet_state 1] pl by simp
  then have sp': "select_nose pose_frame = Some ?p" by simp
  have ef: "poseLandmarks example_frame = None"
    "faceLandmarks example_frame = Some example_face" "1 < length example_face"
    by (simp_all add: example_frame_def example_face_length)
  have n1: "example_face ! 1 = ?n"
    by (simp add: example_face_nth example_point_def)
  have "select_nose example_frame = Some (example_face ! 1)"
    using main [of example_frame quiet_state 1] ef by blast
  with n1 have sn: "select_nose example_frame = Some ?n" by simp
  have np: "sqrt ((lm_x ?n - lm_x ?p)\<^sup>2 + (lm_y ?n - lm_y ?p)\<^sup>2) = 1 / 20"
    by (rule real_sqrt_unique) (simp_all add: power2_eq_square)
  have "moving (onResults example_frame 1 quiet_state)
          = (sqrt ((lm_x ?n - lm_x ?p)\<^sup>2 + (lm_y ?n - lm_y ?p)\<^sup>2) > 3 / 1000)"
    using main [of example_frame quiet_state 1] sn ln by blast
  with np have m1: "moving (onResults example_frame 1 quiet_state)"
    by simp
  have m2: "\<not> moving (onResults empty_frame 1 (quiet_state\<lparr>moving := True\<rparr>))"
    using main [of empty_frame "quiet_state\<lparr>moving := True\<rparr>" 1] se by blast
  have k: "lastNose (onResults empty_frame 1 quiet_state) = Some ?p"
    using main [of empty_frame quiet_state 1] se ln by simp
  have "moving (onResults pose_frame 1 quiet_state)
          = (sqrt ((lm_x ?p - lm_x ?p)\<^sup>2 + (lm_y ?p - lm_y ?p)\<^sup>2) > 3 / 1000)"
    using main [of pose_frame quiet_state 1] sp' ln by blast
  then have m3: "\<not> moving (onResults pose_frame 1 quiet_state)"
    by simp
  have r1: "lastNose (run_frames [(pose_frame, 1)] initial_state) = Some ?p"
    using main [of pose_frame initial_state 1] sp' by simp
  have "moving (onResults example_frame 2 (onResults pose_frame 1 initial_state))
          = (sqrt ((lm_x ?n - lm_x ?p)\<^sup>2 + (lm_y ?n - lm_y ?p)\<^sup>2) > 3 / 1000)"
    using main [of example_frame initial_state 2 pose_frame 1] sn sp' by blast
  with np have r2: "moving (run_frames [(pose_frame, 1), (example_frame, 2)] initial_state)"
    by simp
  have "moving (onResults example_frame 2 (onResults example_frame 1 initial_state))
          = (sqrt ((lm_x ?n - lm_x ?n)\<^sup>2 + (lm_y ?n - lm_y ?n)\<^sup>2) > 3 / 1000)"
    using main [of example_frame initial_state 2 example_frame 1] sn by blast
  then have r3: "\<not> moving (run_frames [(example_frame, 1), (example_frame, 2)] initial_state)"
    by simp
  from ef n1 sn ln m1 ee se m2 k pl sp' m3 r1 r2 r3 show ?thesis by simp
qed

section \<open>The mouth-openness history\<close>

lemma push_mouth_length: "length (push_mouth b now m) \<le> max 31 (length b)"
  by (cases b) (simp_all add: push_mouth_def)

lemma with_face_mouthBuf:
  "mouthBuf (with_face face now st) = push_mouth (mouthBuf st) now (mouth_openness face)"
  by (simp add: with_face_def Let_def)

lemma onResults_mouthBuf_length:
  "length (mouthBuf (onResults res now st)) \<le> max 31 (length (mouthBuf st))"
  using push_mouth_length [of "mouthBuf st" now]
  by (simp add: onResults_face_fields face_step_def no_face_def with_face_mouthBuf
        split: option.splits)

lemma run_frames_mouthBuf_length:
  "length (mouthBuf st) \<le> 31 \<Longrightarrow> length (mouthBuf (run_frames frames st)) \<le> 31"
proof (induction frames arbitrary: st)
  case Nil
  then show ?case by simp
next
  case (Cons f frames)
  obtain res now where f: "f = (res, now)" by (cases f)
  have "length (mouthBuf (onResults res now st)) \<le> 31"
    using onResults_mouthBuf_length [of res now st] Cons.prems by simp
  then show ?case using Cons.IH f by simp
qed

text \<open>
  C8. After any sequence of frames, processed from the initial state, the mouth-openness
  history holds at most 31 entries: one frame never lengthens a history beyond 31, and a
  frame with a face shifts the oldest entry off before its push only when the length
  exceeds 30.
\<close>

theorem mouthBuf_bounded:
  "length (mouthBuf (run_frames frames initial_state)) \<le> 31
   \<and> length (mouthBuf (onResults res now st)) \<le> max 31 (length (mouthBuf st))
   \<and> mouthBuf (with_face face now st)
       = (if length (mouthBuf st) > 30 then tl (mouthBuf st) else mouthBuf st)
         @ [\<lparr>ms_t = now, ms_v = mouth_openness face\<rparr>]"
proof -
  have "length (mouthBuf (run_frames frames initial_state)) \<le> 31"
    by (rule run_frames_mouthBuf_length) (simp add: initial_state_def)
  then show ?thesis
    by (simp add: onResults_mouthBuf_length with_face_mouthBuf push_mouth_def)
qed

section \<open>Guarded ratios\<close>

text \<open>A quotient by a denominator clamped at 1e-6.\<close>

lemma clamped_quotient:
  fixes n c :: real
  assumes "0 \<le> n"
  shows "n / max (1 / 1000000) c * max (1 / 1000000) c = n"
    and "0 \<le> n / max (1 / 1000000) c"
    and "n / max (1 / 1000000) c \<le> 1000000 * n"
proof -
  define m where "m = max (1 / 1000000) c"
  have m: "0 < m" "1 \<le> 1000000 * m" by (simp_all add: m_def max_def)
  from m(1) have "n / m * m = n" by simp
  then show "n / max (1 / 1000000) c * max (1 / 1000000) c = n" by (simp only: m_def)
  from m(1) assms have "0 \<le> n / m" by simp
  then show "0 \<le> n / max (1 / 1000000) c" by (simp only: m_def)
  have "n * 1 \<le> n * (1000000 * m)"
    using m(2) assms by (rule mult_left_mono)
  then have "n \<le> 1000000 * n * m" by (simp add: mult.assoc mult.left_commute)
  with m(1) have "n / m \<le> 1000000 * n" by (simp add: pos_divide_le_eq)
  then show "n / max (1 / 1000000) c \<le> 1000000 * n" by (simp only: m_def)
qed

lemma ear_try_Some:
  assumes "ear_try face indices = Some ear"
  shows "\<exists>p1 p2 p3 p4 p5 p6.
           eye_point face indices 0 = Some p1 \<and> eye_point face indices 1 = Some p2
           \<and> eye_point face indices 2 = Some p3 \<and> eye_point face indices 3 = Some p4
           \<and> eye_point face indices 4 = Some p5 \<and> eye_point face indices 5 = Some p6
           \<and> ear = (distance p2 p6 + distance p3 p5)
                     / (2 * max (1 / 1000000) (distance p1 p4))"
  using assms
  by (auto simp: ear_try_def Let_def ear_denominator_def split: Option.bind_splits)

lemma ear_quotient:
  assumes "ear = (distance p2 p6 + distance p3 p5) / (2 * max (1 / 1000000) (distance p1 p4))"
  shows "ear * (2 * max (1 / 1000000) (distance p1 p4)) = distance p2 p6 + distance p3 p5"
    and "0 \<le> ear"
    and "ear \<le> 500000 * (distance p2 p6 + distance p3 p5)"
proof -
  define N where "N = distance p2 p6 + distance p3 p5"
  define m where "m = max (1 / 1000000) (distance p1 p4)"
  have N: "0 \<le> N / 2" by (simp add: N_def distance_nonneg)
  have e: "ear = N / 2 / m" using assms by (simp add: N_def m_def)
  have q: "N / 2 / m * m = N / 2" "0 \<le> N / 2 / m" "N / 2 / m \<le> 1000000 * (N / 2)"
    using clamped_quotient [OF N, of "distance p1 p4"] by (simp_all only: m_def)
  have mp: "0 < m" by (simp add: m_def max_def)
  with e have "ear * (2 * m) = N" by simp
  then show "ear * (2 * max (1 / 1000000) (distance p1 p4)) = distance p2 p6 + distance p3 p5"
    by (simp only: N_def m_def)
  from q(2) e show "0 \<le> ear" by simp
  from q(3) e have "ear \<le> 500000 * N" by simp
  then show "ear \<le> 500000 * (distance p2 p6 + distance p3 p5)" by (simp only: N_def)
qed

lemma pushed_openness:
  assumes "faceLandmarks res = Some face" and "468 \<le> length face"
  shows "mouthBuf (onResults res now st) \<noteq> []"
    and "ms_v (last (mouthBuf (onResults res now st)))
           = distance (face ! 13) (face ! 14)
               / max (1 / 1000000) (distance (face ! 234) (face ! 454))"
  using assms
  by (simp_all add: onResults_face_fields face_step_def with_face_mouthBuf push_mouth_def
        mouth_openness_def mouth_denominator_def MOUTH_UP_def MOUTH_DOWN_def
        FACE_LEFT_def FACE_RIGHT_def)

text \<open>
  C6. Both divisions of the geometric heuristics divide by a value clamped below by
  1e-6, whatever the landmarks are. \<open>computeEAR\<close> either takes its fallback, when an eye
  landmark is missing, or returns a quotient whose denominator
  \<open>2 * max(1e-6, C)\<close> is at least 1e-6: the result times the denominator is the
  numerator \<open>A + B\<close>, and the result lies between 0 and \<open>500000 * (A + B)\<close>. On a frame
  with at least 468 face landmarks the openness value that the handler pushes is a
  quotient by \<open>max(1e-6, face width)\<close> in the same sense, and the two eye flags compare
  such quotients with 0.20.
\<close>

theorem guarded_ratios:
  "((ear_try face indices = None \<and> computeEAR face indices = 3 / 10)
     \<or> (\<exists>p1 p2 p3 p4 p5 p6.
           eye_point face indices 0 = Some p1 \<and> eye_point face indices 1 = Some p2
           \<and> eye_point face indices 2 = Some p3 \<and> eye_point face indices 3 = Some p4
           \<and> eye_point face indices 4 = Some p5 \<and> eye_point face indices 5 = Some p6
           \<and> 1 / 1000000 \<le> 2 * max (1 / 1000000) (distance p1 p4)
           \<and> computeEAR face indices * (2 * max (1 / 1000000) (distance p1 p4))
               = distance p2 p6 + distance p3 p5
           \<and> 0 \<le> computeEAR face indices
           \<and> computeEAR face indices \<le> 500000 * (distance p2 p6 + distance p3 p5)))
   \<and> (faceLandmarks res = Some face \<and> 468 \<le> length face \<longrightarrow>
        mouthBuf (onResults res now st) \<noteq> []
        \<and> 1 / 1000000 \<le> max (1 / 1000000) (distance (face ! 234) (face ! 454))
        \<and> ms_v (last (mouthBuf (onResults res now st)))
             * max (1 / 1000000) (distance (face ! 234) (face ! 454))
            = distance (face ! 13) (face ! 14)
        \<and> 0 \<le> ms_v (last (mouthBuf (onResults res now st)))
        \<and> ms_v (last (mouthBuf (onResults res now st)))
            \<le> 1000000 * distance (face ! 13) (face ! 14)
        \<and> rightEyeOpen (onResults res now st) = (computeEAR face RIGHT_EYE > 20 / 100)
        \<and> leftEyeOpen (onResults res now st) = (computeEAR face LEFT_EYE > 20 / 100)
        \<and> computeEAR face RIGHT_EYE * (2 * max (1 / 1000000) (distance (face ! 33) (face ! 133)))
            = distance (face ! 160) (face ! 144) + distance (face ! 158) (face ! 153)
        \<and> computeEAR face LEFT_EYE * (2 * max (1 / 1000000) (distance (face ! 362) (face ! 263)))
            = distance (face ! 385) (face ! 380) + distance (face ! 387) (face ! 373))"
proof -
  have ear: "(ear_try face indices = None \<and> computeEAR face indices = 3 / 10)
     \<or> (\<exists>p1 p2 p3 p4 p5 p6.
           eye_point face indices 0 = Some p1 \<and> eye_point face indices 1 = Some p2
           \<and> eye_point face indices 2 = Some p3 \<and> eye_point face indices 3 = Some p4
           \<and> eye_point face indices 4 = Some p5 \<and> eye_point face indices 5 = Some p6
           \<and> 1 / 1000000 \<le> 2 * max (1 / 1000000) (distance p1 p4)
           \<and> computeEAR face indices * (2 * max (1 / 1000000) (distance p1 p4))
               = distance p2 p6 + distance p3 p5
           \<and> 0 \<le> computeEAR face indices
           \<and> computeEAR face indices \<le> 500000 * (distance p2 p6 + distance p3 p5))"
  proof (cases "ear_try face indices")
    case None
    then show ?thesis by (simp add: computeEAR_def)
  next
    case (Some ear)
    from ear_try_Some [OF Some] obtain p1 p2 p3 p4 p5 p6 where
      p: "eye_point face indices 0 = Some p1" "eye_point face indices 1 = Some p2"
        "eye_point face indices 2 = Some p3" "eye_point face indices 3 = Some p4"
        "eye_point face indices 4 = Some p5" "eye_point face indices 5 = Some p6"
      and e: "ear = (distance p2 p6 + distance p3 p5)
                     / (2 * max (1 / 1000000) (distance p1 p4))"
      by blast
    have c: "computeEAR face indices = ear" using Some by (simp add: computeEAR_def)
    have d: "1 / 1000000 \<le> 2 * max (1 / 1000000) (distance p1 p4)"
      by (simp add: max_def)
    from p d ear_quotient [OF e] c have "eye_point face indices 0 = Some p1 \<and> eye_point face indices 1 = Some p2
           \<and> eye_point face indices 2 = Some p3 \<and> eye_point face indices 3 = Some p4
           \<and> eye_point face indices 4 = Some p5 \<and> eye_point face indices 5 = Some p6
           \<and> 1 / 1000000 \<le> 2 * max (1 / 1000000) (distance p1 p4)
           \<and> computeEAR face indices * (2 * max (1 / 1000000) (distance p1 p4))
               = distance p2 p6 + distance p3 p5
           \<and> 0 \<le> computeEAR face indices
           \<and> computeEAR face indices \<le> 500000 * (distance p2 p6 + distance p3 p5)"
      by simp
    then show ?thesis by blast
  qed
  have mouth: "mouthBuf (onResults res now st) \<noteq> []
        \<and> 1 / 1000000 \<le> max (1 / 1000000) (distance (face ! 234) (face ! 454))
        \<and> ms_v (last (mouthBuf (onResults res now st)))
             * max (1 / 1000000) (distance (face ! 234) (face ! 454))
            = distance (face ! 13) (face ! 14)
        \<and> 0 \<le> ms_v (last (mouthBuf (onResults res now st)))
        \<and> ms_v (last (mouthBuf (onResults res now st)))
            \<le> 1000000 * distance (face ! 13) (face ! 14)"
    if "faceLandmarks res = Some face" "468 \<le> length face"
    using pushed_openness [OF that, of now st]
      clamped_quotient [OF distance_nonneg, of "face ! 13" "face ! 14"
        "distance (face ! 234) (face ! 454)"]
    by (simp add: max_def)
  have eyes: "rightEyeOpen (onResults res now st) = (computeEAR face RIGHT_EYE > 20 / 100)
        \<and> leftEyeOpen (onResults res now st) = (computeEAR face LEFT_EYE > 20 / 100)"
    if "faceLandmarks res = Some face" "468 \<le> length face"
    using that by (simp add: onResults_face_fields face_step_def with_face_eyes)
  have re: "computeEAR face RIGHT_EYE * (2 * max (1 / 1000000) (distance (face ! 33) (face ! 133)))
            = distance (face ! 160) (face ! 144) + distance (face ! 158) (face ! 153)"
    if "468 \<le> length face"
    by (rule ear_quotient(1) [OF computeEAR_right [OF that]])
  have le: "computeEAR face LEFT_EYE * (2 * max (1 / 1000000) (distance (face ! 362) (face ! 263)))
            = distance (face ! 385) (face ! 380) + distance (face ! 387) (face ! 373)"
    if "468 \<le> length face"
    by (rule ear_quotient(1) [OF computeEAR_left [OF that]])
  from ear mouth eyes re le show ?thesis by blast
qed

text \<open>
  On the degenerate face the eye corners coincide and so do the cheeks: the aspect ratio
  of the right eye is 0 and the eye is reported shut, and the pushed openness is
  0.05 / 1e-6 = 50000. On a face of 300 landmarks the left eye takes the fallback.
\<close>

theorem guarded_ratios_witness:
  "faceLandmarks narrow_frame = Some narrow_face
   \<and> 468 \<le> length narrow_face
   \<and> distance (narrow_face ! 234) (narrow_face ! 454) = 0
   \<and> distance (narrow_face ! 13) (narrow_face ! 14) = 1 / 20
   \<and> ms_v (last (mouthBuf (onResults narrow_frame 1 initial_state))) = 50000
   \<and> distance (narrow_face ! 33) (narrow_face ! 133) = 0
   \<and> computeEAR narrow_face RIGHT_EYE = 0
   \<and> \<not> rightEyeOpen (onResults narrow_frame 1 initial_state)
   \<and> eye_point (replicate 300 \<lparr>lm_x = 1 / 2, lm_y = 1 / 2\<rparr>) LEFT_EYE 0 = None
   \<and> computeEAR (replicate 300 \<lparr>lm_x = 1 / 2, lm_y = 1 / 2\<rparr>) LEFT_EYE = 3 / 10"
proof -
  have f: "faceLandmarks narrow_frame = Some narrow_face" "468 \<le> length narrow_face"
    by (simp_all add: narrow_frame_def narrow_face_def)
  have n: "narrow_face ! i
             = (if i = 14 then \<lparr>lm_x = 50 / 100, lm_y = 55 / 100\<rparr>
                else \<lparr>lm_x = 50 / 100, lm_y = 50 / 100\<rparr>)" if "i < 468" for i
    using that by (simp add: narrow_face_def)
  have d: "distance (narrow_face ! 234) (narrow_face ! 454) = 0"
    "distance (narrow_face ! 13) (narrow_face ! 14) = 1 / 20"
    "distance (narrow_face ! 33) (narrow_face ! 133) = 0"
    "distance (narrow_face ! 160) (narrow_face ! 144) = 0"
    "distance (narrow_face ! 158) (narrow_face ! 153) = 0"
    by (simp_all add: n distance_vertical)
  note main = guarded_ratios [of narrow_face RIGHT_EYE narrow_frame 1 initial_state]
  have v: "ms_v (last (mouthBuf (onResults narrow_frame 1 initial_state))) = 50000"
    using main f d by simp
  have e: "computeEAR narrow_face RIGHT_EYE = 0"
    using main f d by simp
  have r: "\<not> rightEyeOpen (onResults narrow_frame 1 initial_state)"
    using main f e by simp
  have m: "eye_point (replicate 300 \<lparr>lm_x = 1 / 2, lm_y = 1 / 2\<rparr>) LEFT_EYE 0 = None"
    by (simp add: eye_point_def elem_at_def LEFT_EYE_def)
  have c: "computeEAR (replicate 300 \<lparr>lm_x = 1 / 2, lm_y = 1 / 2\<rparr>) LEFT_EYE = 3 / 10"
    using guarded_ratios [of "replicate 300 \<lparr>lm_x = 1 / 2, lm_y = 1 / 2\<rparr>" LEFT_EYE] m
    by auto
  from f d v e r m c show ?thesis by simp
qed

section \<open>Finger counting\<close>

lemma count_loop_step:
  assumes "i \<le> 4" and "length hand = 21"
  shows "count_loop hand i c =
           count_loop hand (Suc i)
             (if lm_y (hand ! (TIP ! i)) < lm_y (hand ! (PIP ! i)) then c + 1 else c)"
proof -
  from assms(1) have "i = 0 \<or> i = 1 \<or> i = 2 \<or> i = 3 \<or> i = 4" by arith
  then have "TIP ! i < 21 \<and> PIP ! i < 21"
    by (auto simp: TIP_def PIP_def)
  with assms show ?thesis
    by (subst count_loop.simps) (simp add: elem_at_def)
qed

lemma count_loop_done: "count_loop hand (Suc (Suc (Suc (Suc (Suc 0))))) c = Some c"
  by (subst count_loop.simps) simp

lemma count_loop_21:
  "length hand = 21 \<Longrightarrow>
   count_loop hand (Suc 0) 0 =
     Some (length (filter (\<lambda>(tip, pip). lm_y (hand ! tip) < lm_y (hand ! pip))
               [(8, 6), (12, 10), (16, 14), (20, 18)]))"
  by (simp add: count_loop_step count_loop_done TIP_def PIP_def)

lemma countFingersFromHand_21:
  "length hand = 21 \<Longrightarrow> countFingersFromHand hand = spec_finger_count hand"
  by (simp add: countFingersFromHand_def count_try_def count_loop_21 spec_finger_count_def
        elem_at_def Let_def)








lemma spec_finger_count_example: "spec_finger_count example_hand = 3"
  by (simp add: spec_finger_count_def example_hand_nth example_hand_point_def)

lemma finger_count_example: "fingerCount (onResults example_frame now st) = 3"
  by (simp add: onResults_fingerCount hand_step_def select_hand_example example_hand_length
        countFingersFromHand_21 spec_finger_count_example)



text \<open>
  What the handler does with a hand field in the shape of the face field: the entry
  \<open>rhand[0]\<close> is one landmark, the test of line 129 fails, and the count is 0.
\<close>

lemma finger_count_flat: "fingerCount (onResults flat_frame now st) = 0"
proof -
  have "select_hand flat_frame = Some (Single (example_hand ! 0))"
    by (simp add: select_hand_def first_hand_def flat_frame_def example_hand_length)
  then show ?thesis
    by (simp add: onResults_fingerCount hand_step_def)
qed




section \<open>Speaking\<close>

lemma foldl_add_sum_list:
  "foldl (\<lambda>s x. s + f x) a xs = (a::real) + sum_list (map f xs)"
  by (induction xs arbitrary: a) simp_all

lemma buf_avg_spec: "buf_avg mBuf = spec_mean (map ms_v mBuf)"
  by (simp add: buf_avg_def spec_mean_def foldl_add_sum_list)

lemma buf_diffs_spec: "buf_diffs mBuf = spec_successive_diffs (map ms_v mBuf)"
proof (rule nth_equalityI)
  show "length (buf_diffs mBuf) = length (spec_successive_diffs (map ms_v mBuf))"
    by (simp add: buf_diffs_def spec_successive_diffs_def)
next
  fix i
  assume "i < length (buf_diffs mBuf)"
  then have i: "i < length mBuf - 1"
    by (simp add: buf_diffs_def)
  then show "buf_diffs mBuf ! i = spec_successive_diffs (map ms_v mBuf) ! i"
    by (simp add: buf_diffs_def spec_successive_diffs_def nth_enumerate_eq nth_tl)
qed

lemma buf_meanDiff_spec:
  "buf_meanDiff mBuf =
     (if length mBuf \<ge> 2 then spec_mean (spec_successive_diffs (map ms_v mBuf)) else 0)"
proof -
  have l: "length (spec_successive_diffs (map ms_v mBuf)) = length mBuf - 1"
    by (simp add: spec_successive_diffs_def)
  have "foldl (\<lambda>s d. s + d) 0 ds = sum_list ds" for ds :: "real list"
    using foldl_add_sum_list [of "\<lambda>d. d" 0 ds] by simp
  with l show ?thesis
    by (auto simp: buf_meanDiff_def Let_def buf_diffs_spec spec_mean_def)
qed

lemma speaking_spec:
  "(buf_avg mBuf > 3 / 100 \<and> buf_meanDiff mBuf > 8 / 1000) = spec_speaking (map ms_v mBuf)"
  by (auto simp: buf_avg_spec buf_meanDiff_spec spec_speaking_def)

lemma with_face_speaking:
  "speaking (with_face face now st)
     = spec_speaking (map ms_v (push_mouth (mouthBuf st) now (mouth_openness face)))"
proof -
  have "speaking (with_face face now st)
          = (buf_avg (push_mouth (mouthBuf st) now (mouth_openness face)) > 3 / 100
             \<and> buf_meanDiff (push_mouth (mouthBuf st) now (mouth_openness face)) > 8 / 1000)"
    by (simp add: with_face_def Let_def)
  also have "\<dots> = spec_speaking (map ms_v (push_mouth (mouthBuf st) now (mouth_openness face)))"
    by (rule speaking_spec)
  finally show ?thesis .
qed

lemma mouth_openness_example: "mouth_openness example_face = 1 / 10"
  by (simp add: mouth_openness_def mouth_denominator_def MOUTH_UP_def MOUTH_DOWN_def
        FACE_LEFT_def FACE_RIGHT_def example_face_nth example_point_def
        distance_vertical distance_horizontal)

lemma spec_speaking_two: "spec_speaking [0, 1 / 10]"
  by (simp add: spec_speaking_def spec_mean_def spec_successive_diffs_def)

lemma spec_speaking_one: "\<not> spec_speaking [1 / 10]"
  by (simp add: spec_speaking_def)



section \<open>Which signals depend on the accumulated state\<close>

lemma speaking_example_quiet: "speaking (onResults example_frame 1 quiet_state)"
  by (simp add: onResults_face_fields face_step_def example_frame_def example_face_length
        with_face_speaking mouth_openness_example push_mouth_def quiet_state_def
        initial_state_def spec_speaking_two)

lemma speaking_example_initial: "\<not> speaking (onResults example_frame 1 initial_state)"
  by (simp add: onResults_face_fields face_step_def example_frame_def example_face_length
        with_face_speaking mouth_openness_example push_mouth_def
        initial_state_def spec_speaking_one)

lemma moving_example_quiet: "moving (onResults example_frame 1 quiet_state)"
  by (simp add: onResults_nose_fields nose_step_def select_nose_example quiet_state_def
        initial_state_def nose_speed_vertical)

lemma moving_example_initial: "\<not> moving (onResults example_frame 1 initial_state)"
  by (simp add: onResults_nose_fields nose_step_def select_nose_example initial_state_def)

text \<open>
  C1 as stated fails. The same frame, handled at the same time in two states that
  differ only in the mouth-openness history and the recorded nose position, is reported
  as speaking and moving in one state and as neither in the other.
\<close>

theorem signals_depend_on_history:
  "speaking (onResults example_frame 1 quiet_state)
     \<noteq> speaking (onResults example_frame 1 initial_state)
   \<and> moving (onResults example_frame 1 quiet_state)
     \<noteq> moving (onResults example_frame 1 initial_state)"
  using speaking_example_quiet speaking_example_initial moving_example_quiet
    moving_example_initial
  by simp

lemma map_ms_v_push:
  "map ms_v (push_mouth b now m)
     = (if length (map ms_v b) > 30 then tl (map ms_v b) else map ms_v b) @ [m]"
  by (simp add: push_mouth_def map_tl)

lemma face_step_independent:
  "leftEyeOpen (face_step res now1 st1) = leftEyeOpen (face_step res now2 st2)"
  "rightEyeOpen (face_step res now1 st1) = rightEyeOpen (face_step res now2 st2)"
  by (simp_all add: face_step_def with_face_eyes no_face_def split: option.splits)

lemma face_step_speaking:
  assumes "map ms_v (mouthBuf st1) = map ms_v (mouthBuf st2)"
  shows "speaking (face_step res now1 st1) = speaking (face_step res now2 st2)"
proof -
  have "map ms_v (push_mouth (mouthBuf st1) now1 m)
          = map ms_v (push_mouth (mouthBuf st2) now2 m)" for m
    using assms by (simp only: map_ms_v_push)
  then show ?thesis
    by (simp add: face_step_def no_face_def with_face_speaking split: option.splits)
qed

text \<open>
  After a frame, moving is reported only with a recorded nose position; so it is in
  every state that a run from the initial state reaches.
\<close>

lemma moving_needs_nose:
  "lastNose (onResults res now st) = None \<Longrightarrow> \<not> moving (onResults res now st)"
  by (cases "select_nose res") (simp_all add: moving_none onResults_lastNose_Some)

lemma run_frames_moving_needs_nose:
  assumes "lastNose st = None \<Longrightarrow> \<not> moving st"
    and "lastNose (run_frames frames st) = None"
  shows "\<not> moving (run_frames frames st)"
  using assms
proof (induction frames arbitrary: st)
  case Nil
  then show ?case by simp
next
  case (Cons f frames)
  obtain res now where f: "f = (res, now)" by (cases f)
  have "\<not> moving (run_frames frames (onResults res now st))"
    using Cons.prems(2) f by (intro Cons.IH moving_needs_nose) simp_all
  with f show ?case by simp
qed

lemma reached_moving_needs_nose:
  "lastNose (run_frames frames initial_state) = None \<Longrightarrow>
   \<not> moving (run_frames frames initial_state)"
  by (rule run_frames_moving_needs_nose) (simp_all add: initial_state_def)

lemma moving_determined:
  assumes "lastNose st1 = lastNose st2" and "moving st1 = moving st2"
  shows "moving (onResults res now1 st1) = moving (onResults res now2 st2)"
  using assms by (simp add: onResults_nose_fields nose_step_def split: option.splits)

text \<open>
  C1, amended. Finger count, left eye open and right eye open are recomputed from the
  frame's landmarks alone: two invocations of the handler with the same landmarks give
  the same three values, whatever the two states and times are. Speaking is determined
  by the landmarks together with the openness values in the history. Moving is
  determined by the landmarks together with the recorded nose position in all states
  that runs from the initial state reach; in arbitrary states it is determined by these
  and the previous value of moving, which is kept when a nose is seen with no position
  recorded.
\<close>

theorem signals_state_dependence:
  "fingerCount (onResults res now1 st1) = fingerCount (onResults res now2 st2)
   \<and> leftEyeOpen (onResults res now1 st1) = leftEyeOpen (onResults res now2 st2)
   \<and> rightEyeOpen (onResults res now1 st1) = rightEyeOpen (onResults res now2 st2)
   \<and> (map ms_v (mouthBuf st1) = map ms_v (mouthBuf st2) \<longrightarrow>
        speaking (onResults res now1 st1) = speaking (onResults res now2 st2))
   \<and> (lastNose st1 = lastNose st2 \<and> moving st1 = moving st2 \<longrightarrow>
        moving (onResults res now1 st1) = moving (onResults res now2 st2))
   \<and> (\<forall>nose. select_nose res = Some nose \<and> lastNose st1 = None \<longrightarrow>
        moving (onResults res now1 st1) = moving st1)
   \<and> (lastNose (run_frames frames1 initial_state) = lastNose (run_frames frames2 initial_state)
        \<longrightarrow> moving (onResults res now1 (run_frames frames1 initial_state))
              = moving (onResults res now2 (run_frames frames2 initial_state)))"
proof -
  have f: "fingerCount (onResults res now1 st1) = fingerCount (onResults res now2 st2)"
    by (simp add: onResults_fingerCount hand_step_def split: option.splits hand_item.splits)
  have r: "moving (onResults res now1 (run_frames frames1 initial_state))
             = moving (onResults res now2 (run_frames frames2 initial_state))"
    if eq: "lastNose (run_frames frames1 initial_state)
              = lastNose (run_frames frames2 initial_state)"
  proof (cases "lastNose (run_frames frames1 initial_state)")
    case None
    with eq have "\<not> moving (run_frames frames1 initial_state)"
      "\<not> moving (run_frames frames2 initial_state)"
      by (simp_all add: reached_moving_needs_nose)
    with eq show ?thesis by (intro moving_determined) simp_all
  next
    case (Some prev)
    with eq have p: "lastNose (run_frames frames2 initial_state) = Some prev" by simp
    show ?thesis
    proof (cases "select_nose res")
      case None
      then show ?thesis by (simp add: moving_none)
    next
      case (Some nose)
      with \<open>lastNose (run_frames frames1 initial_state) = Some prev\<close> p show ?thesis
        by (simp add: moving_after)
    qed
  qed
  from f r show ?thesis
    using face_step_independent [of res now1 st1 now2 st2]
      face_step_speaking [of st1 st2 res now1 now2]
      moving_determined [of st1 st2 res now1 now2]
    by (auto simp: onResults_face_fields moving_first)
qed

text \<open>
  The example frame handled at time 2 in a state that agrees with \<open>quiet_state\<close> on
  the history values and the nose, and differs from \<open>initial_state\<close> in both; a first
  nose that keeps a moving flag that was set; and two runs that end with the same
  recorded nose, one reporting moving and one not, after which the example frame is
  reported moving in both.
\<close>

theorem signals_state_dependence_witness:
  "map ms_v (mouthBuf quiet_state) = map ms_v (mouthBuf later_state)
   \<and> lastNose quiet_state = lastNose later_state
   \<and> moving quiet_state = moving later_state
   \<and> speaking (onResults example_frame 2 later_state)
   \<and> moving (onResults example_frame 2 later_state)
   \<and> fingerCount (onResults example_frame 2 later_state) = 3
   \<and> rightEyeOpen (onResults example_frame 2 later_state)
   \<and> \<not> leftEyeOpen (onResults example_frame 2 later_state)
   \<and> select_nose example_frame = Some \<lparr>lm_x = 50 / 100, lm_y = 50 / 100\<rparr>
   \<and> lastNose (initial_state\<lparr>moving := True\<rparr>) = None
   \<and> moving (onResults example_frame 1 (initial_state\<lparr>moving := True\<rparr>))
   \<and> lastNose (run_frames [(pose_frame, 1)] initial_state)
       = lastNose (run_frames [(example_frame, 1), (pose_frame, 2)] initial_state)
   \<and> \<not> moving (run_frames [(pose_frame, 1)] initial_state)
   \<and> moving (run_frames [(example_frame, 1), (pose_frame, 2)] initial_state)
   \<and> moving (onResults example_frame 3 (run_frames [(pose_frame, 1)] initial_state))
   \<and> moving (onResults example_frame 3
         (run_frames [(example_frame, 1), (pose_frame, 2)] initial_state))"
proof -
  let ?n = "\<lparr>lm_x = 50 / 100, lm_y = 50 / 100\<rparr>"
  let ?p = "\<lparr>lm_x = 50 / 100, lm_y = 45 / 100\<rparr>"
  note main = signals_state_dependence
  have h: "map ms_v (mouthBuf quiet_state) = map ms_v (mouthBuf later_state)"
    "lastNose quiet_state = lastNose later_state"
    "moving quiet_state = moving later_state"
    by (simp_all add: quiet_state_def later_state_def)
  have i: "lastNose (initial_state\<lparr>moving := True\<rparr>) = None"
    "lastNose initial_state = None" "\<not> moving initial_state"
    by (simp_all add: initial_state_def)
  have k: "moving (onResults example_frame 1 (initial_state\<lparr>moving := True\<rparr>))"
    using main [of example_frame 1 "initial_state\<lparr>moving := True\<rparr>"] select_nose_example i(1)
    by simp
  have a1: "lastNose (run_frames [(pose_frame, 1)] initial_state) = Some ?p"
    by (simp add: onResults_lastNose_Some [OF select_nose_pose])
  have a2: "lastNose (run_frames [(example_frame, 1), (pose_frame, 2)] initial_state) = Some ?p"
    by (simp add: onResults_lastNose_Some [OF select_nose_pose])
  have b1: "\<not> moving (run_frames [(pose_frame, 1)] initial_state)"
    using moving_first [OF select_nose_pose i(2), of 1] i(3) by simp
  have b2: "moving (run_frames [(example_frame, 1), (pose_frame, 2)] initial_state)"
    using moving_after [OF select_nose_pose onResults_lastNose_Some [OF select_nose_example],
        of 2 1 initial_state]
    by (simp add: nose_speed_vertical)
  have c1: "moving (onResults example_frame 3 (run_frames [(pose_frame, 1)] initial_state))"
    using moving_after [OF select_nose_example a1, of 3] by (simp add: nose_speed_vertical)
  have c2: "moving (onResults example_frame 3
         (run_frames [(example_frame, 1), (pose_frame, 2)] initial_state))"
    using main [of example_frame 3 _ 3 _ "[(example_frame, 1), (pose_frame, 2)]"
        "[(pose_frame, 1)]"] a1 a2 c1
    by simp
  from h finger_count_example right_eye_example left_eye_example
    speaking_example_quiet moving_example_quiet select_nose_example i(1) k a1 a2 b1 b2 c1 c2
  show ?thesis
    using main [of example_frame 2 later_state 1 quiet_state]
      main [of example_frame 2 later_state 1 initial_state]
    by simp
qed

section \<open>The status HUD\<close>

text \<open>
  \<open>drawHUD\<close> writes five texts, formatted from the five signal values of its scope.
\<close>

lemma drawHUD_texts:
  "hud_texts (drawHUD scope w) =
     [''Fingers: '' @ show_nat (fingerCount scope),
      ''Left eye: '' @ (if leftEyeOpen scope then ''Open'' else ''Closed''),
      ''Right eye: '' @ (if rightEyeOpen scope then ''Open'' else ''Closed''),
      ''Speaking: '' @ (if speaking scope then ''Yes'' else ''No''),
      ''Moving: '' @ (if moving scope then ''Yes'' else ''No'')]"
  by (simp add: drawHUD_def roundRect_def Let_def)

lemma show_nat_0: "show_nat 0 = ''0''"
  by (simp add: show_nat.simps [of 0])

text \<open>
  C7. The claim is that the HUD shows the current values of the five signals. The
  handler that runs on every frame reads the scope of the first render: after one and
  after two frames with three fingers shown and the left eye shut, the finger count is
  3 and the left eye is reported shut, and the HUD of every frame still reads
  \<open>Fingers: 0\<close> and \<open>Left eye: Open\<close>. The left eye is reported shut in the same
  way when the hand field has landmarks as entries.
\<close>

theorem hud_shows_first_render_values:
  "fingerCount (run_frames [(example_frame, 1)] initial_state) = 3
   \<and> \<not> leftEyeOpen (run_frames [(example_frame, 1)] initial_state)
   \<and> fingerCount (run_frames [(example_frame, 1), (example_frame, 2)] initial_state) = 3
   \<and> \<not> leftEyeOpen (run_frames [(example_frame, 1), (example_frame, 2)] initial_state)
   \<and> \<not> leftEyeOpen (run_frames [(flat_frame, 1)] initial_state)
   \<and> \<not> leftEyeOpen (run_frames [(flat_frame, 1), (flat_frame, 2)] initial_state)
   \<and> hud_texts frame_hud
       = [''Fingers: 0'', ''Left eye: Open'', ''Right eye: Open'', ''Speaking: No'',
          ''Moving: No'']"
proof -
  have "hud_texts frame_hud
       = [''Fingers: 0'', ''Left eye: Open'', ''Right eye: Open'', ''Speaking: No'',
          ''Moving: No'']"
    by (simp add: frame_hud_def drawHUD_texts first_render_def show_nat_0)
  then show ?thesis by (simp add: finger_count_example left_eye_example left_eye_flat)
qed

end
